theory Spec2Isabelle
  imports Complex_Main "HOL-Library.AList" "HOL-Library.Char_ord" "HOL-Library.List_Lexorder"
    "HOL-Library.Log_Nat"
begin

section \<open>Python strings\<close>

text \<open>
  A Python \<open>str\<close> is modelled as a \<open>string\<close>, one \<open>char\<close> per code point (code points
  below 256). The operations of \<open>str\<close> that \<open>dashboard.py\<close> uses are written out.
\<close>

fun is_prefix :: "'a list \<Rightarrow> 'a list \<Rightarrow> bool" where
  "is_prefix [] s = True"
| "is_prefix (p # ps) [] = False"
| "is_prefix (p # ps) (x # xs) = (p = x \<and> is_prefix ps xs)"

text \<open>\<open>p in s\<close> for two strings: \<open>p\<close> occurs in \<open>s\<close> as a contiguous block.\<close>

fun py_in :: "'a list \<Rightarrow> 'a list \<Rightarrow> bool" where
  "py_in p [] = (p = [])"
| "py_in p (x # xs) = (is_prefix p (x # xs) \<or> py_in p xs)"

text \<open>The mathematical notion the rules are stated with: \<open>s\<close> is some text, then \<open>p\<close>, then some text.\<close>

definition substring_of :: "'a list \<Rightarrow> 'a list \<Rightarrow> bool" where
  "substring_of p s = (\<exists>a b. s = a @ p @ b)"

text \<open>\<open>s.split(sep)\<close> for a one-character separator: never an empty list.\<close>

fun split_on :: "'a \<Rightarrow> 'a list \<Rightarrow> 'a list list" where
  "split_on sep [] = [[]]"
| "split_on sep (x # xs) =
     (if x = sep then [] # split_on sep xs
      else (case split_on sep xs of
              [] \<Rightarrow> [[x]]
            | w # ws \<Rightarrow> (x # w) # ws))"

text \<open>
  \<open>str.isspace\<close> on the code points below 256: tab, line feed, vertical tab, form feed,
  carriage return, the four separators 28 to 31, space, next line and no-break space.
\<close>

definition py_isspace :: "char \<Rightarrow> bool" where
  "py_isspace c = (c \<in> set
     [CHR 0x09, CHR 0x0A, CHR 0x0B, CHR 0x0C, CHR 0x0D, CHR 0x1C, CHR 0x1D, CHR 0x1E,
      CHR 0x1F, CHR 0x20, CHR 0x85, CHR 0xA0])"

definition strip :: "string \<Rightarrow> string" where
  "strip s = rev (dropWhile py_isspace (rev (dropWhile py_isspace s)))"

text \<open>\<open>s.replace(' ', '_')\<close>.\<close>

definition replace_space :: "string \<Rightarrow> string" where
  "replace_space s = map (\<lambda>c. if c = CHR '' '' then CHR ''_'' else c) s"

section \<open>The classifiers of \<open>load_data\<close>\<close>

definition get_region :: "string \<Rightarrow> string" where
  "get_region city =
     (if city \<in> set [''New York City'', ''Boston''] then ''East''
      else if city \<in> set [''San Francisco'', ''Los Angeles''] then ''West''
      else if city \<in> set [''Dallas'', ''Atlanta''] then ''South''
      else if city \<in> set [''Seattle'', ''Portland''] then ''North''
      else ''Central'')"

definition get_category :: "string \<Rightarrow> string" where
  "get_category product =
     (if list_ex (\<lambda>p. py_in p product) [''Laptop'', ''Monitor'', ''PC''] then ''Electronics''
      else if list_ex (\<lambda>p. py_in p product) [''iPhone'', ''Phone''] then ''Mobile''
      else if list_ex (\<lambda>p. py_in p product)
                [''Cable'', ''Headphones'', ''Wired'', ''Charger'', ''Machine''] then ''Accessories''
      else ''Other'')"

text \<open>The lambda of the \<open>City_Name\<close> column: \<open>x.split(',')[1].strip()\<close>; \<open>None\<close> is the IndexError.\<close>

definition city_name :: "string \<Rightarrow> string option" where
  "city_name x = (case split_on CHR '','' x of
                    a # b # rest \<Rightarrow> Some (strip b)
                  | _ \<Rightarrow> None)"

section \<open>float64 and int64 arithmetic\<close>

text \<open>
  IEEE 754 binary64: every operation returns the exact result rounded to the nearest
  value with 53 significant bits, ties to the even one; below \<open>2\<close> to the \<open>- 1022\<close> the step
  stays \<open>2\<close> to the \<open>- 1074\<close>. \<open>float64 x\<close> is that rounding of a rational \<open>x\<close>. It works on
  the numerator \<open>p\<close> and the denominator \<open>q\<close> of \<open>x\<close>: \<open>exponent_frac p q\<close> is the \<open>e\<close> with
  \<open>2\<close> to the \<open>e\<close> at most \<open>p / q\<close> and \<open>p / q\<close> below \<open>2\<close> to the \<open>e + 1\<close>, the step is \<open>2\<close> to the
  \<open>s = e - 52\<close>, and \<open>round_div n d\<close> is the integer nearest to \<open>n / d\<close>, the even one of two
  (from the quotient, and twice the remainder against \<open>d\<close>).
\<close>

definition nearest_even :: "int \<Rightarrow> int \<Rightarrow> int \<Rightarrow> int" where
  "nearest_even f r2 d =
     (if r2 < d then f else if d < r2 then f + 1 else if even f then f else f + 1)"

definition round_div :: "int \<Rightarrow> int \<Rightarrow> int" where
  "round_div n d = nearest_even (n div d) (2 * (n mod d)) d"

definition scale2 :: "int \<Rightarrow> int \<Rightarrow> rat" where
  "scale2 n s = (if 0 \<le> s then of_int (n * 2 ^ nat s) else of_int n / of_int (2 ^ nat (- s)))"

definition round_at :: "int \<Rightarrow> int \<Rightarrow> int \<Rightarrow> rat" where
  "round_at p q s =
     scale2 (if 0 \<le> s then round_div p (q * 2 ^ nat s) else round_div (p * 2 ^ nat (- s)) q) s"

definition at_least_pow2 :: "int \<Rightarrow> int \<Rightarrow> int \<Rightarrow> bool" where
  "at_least_pow2 p q e = (if 0 \<le> e then q * 2 ^ nat e \<le> p else q \<le> p * 2 ^ nat (- e))"

definition exponent_near :: "int \<Rightarrow> int \<Rightarrow> int \<Rightarrow> int" where
  "exponent_near p q e = (if at_least_pow2 p q e then e else e - 1)"

definition exponent_frac :: "int \<Rightarrow> int \<Rightarrow> int" where
  "exponent_frac p q = exponent_near p q (bitlen p - bitlen q)"

definition float64_frac :: "int \<times> int \<Rightarrow> rat" where
  "float64_frac pq =
     (if fst pq = 0 then 0
      else round_at (fst pq) (snd pq) (max (exponent_frac \<bar>fst pq\<bar> (snd pq)) (- 1022) - 52))"

definition float64 :: "rat \<Rightarrow> rat" where
  "float64 x = float64_frac (quotient_of x)"

text \<open>A rounded result from \<open>2\<close> to the \<open>1024\<close> on is beyond the largest float64: an infinity.\<close>

definition finite64_frac :: "int \<times> int \<Rightarrow> bool" where
  "finite64_frac pq = (fst pq = 0 \<or> exponent_frac \<bar>fst pq\<bar> (snd pq) < 1024)"

definition finite64 :: "rat \<Rightarrow> bool" where
  "finite64 r = finite64_frac (quotient_of r)"

text \<open>int64 addition wraps around.\<close>

definition wrap64 :: "int \<Rightarrow> int" where
  "wrap64 n = (n + 2 ^ 63) mod 2 ^ 64 - 2 ^ 63"

section \<open>Data frames\<close>

text \<open>
  The exceptions that can leave \<open>load_data\<close> and \<open>main\<close>. \<open>ReadError\<close> stands for every
  failure of \<open>pd.read_csv\<close> other than a missing file (no permission, an empty or malformed
  file); \<open>DateParseError\<close> is the error of \<open>pd.to_datetime\<close>; \<open>ValueError\<close> and
  \<open>OverflowError\<close> are those of \<open>int(x)\<close>.
\<close>

datatype py_error =
    FileNotFoundError
  | ReadError string
  | KeyError string
  | DateParseError
  | TypeError
  | AttributeError
  | IndexError
  | ValueError
  | OverflowError

text \<open>
  A value of a data frame: a string, an int64, a float64, the missing value (NaN) or a
  timestamp. A float64 is held as the rational number it stands for, an int64 as the
  integer; the two infinities and the sign of zero are not modelled.
\<close>

datatype cell = CStr string | CInt int | CFloat rat | CNaN | CTime int

text \<open>
  A row maps column labels to values, in column order; a data frame is its column labels
  and its rows, as \<open>read_csv\<close> delivers them (every row has every column, labels distinct).
\<close>

type_synonym row = "(string \<times> cell) list"

record dataframe =
  columns :: "string list"
  rows :: "row list"

definition cell_of :: "row \<Rightarrow> string \<Rightarrow> cell" where
  "cell_of r c = (case map_of r c of Some v \<Rightarrow> v | None \<Rightarrow> CNaN)"

text \<open>Every row carries the labels of the frame, in order: two rows are the same list exactly
  when they agree in every column.\<close>

definition well_formed :: "dataframe \<Rightarrow> bool" where
  "well_formed df = list_all (\<lambda>r. map fst r = columns df) (rows df)"

text \<open>\<open>df[c]\<close>, read.\<close>

definition get_col :: "dataframe \<Rightarrow> string \<Rightarrow> py_error + cell list" where
  "get_col df c =
     (if c \<in> set (columns df) then Inr (map (\<lambda>r. cell_of r c) (rows df))
      else Inl (KeyError c))"

text \<open>\<open>df[c] = vs\<close>: an existing column is overwritten in place, a new one is appended.\<close>

definition set_col :: "string \<Rightarrow> cell list \<Rightarrow> dataframe \<Rightarrow> dataframe" where
  "set_col c vs df =
     \<lparr>columns = (if c \<in> set (columns df) then columns df else columns df @ [c]),
      rows = map (\<lambda>(r, v). AList.update c v r) (zip (rows df) vs)\<rparr>"

text \<open>\<open>Series.apply(f)\<close> and the element-wise operators: the first failing element raises.\<close>

fun traverse :: "('a \<Rightarrow> py_error + 'b) \<Rightarrow> 'a list \<Rightarrow> py_error + 'b list" where
  "traverse f [] = Inr []"
| "traverse f (x # xs) =
     (case f x of
        Inl e \<Rightarrow> Inl e
      | Inr y \<Rightarrow> (case traverse f xs of Inl e \<Rightarrow> Inl e | Inr ys \<Rightarrow> Inr (y # ys)))"

text \<open>\<open>df[dst] = df[src].apply(f)\<close>.\<close>

definition apply_col ::
  "string \<Rightarrow> string \<Rightarrow> (cell \<Rightarrow> py_error + cell) \<Rightarrow> dataframe \<Rightarrow> py_error + dataframe" where
  "apply_col dst src f df =
     (case get_col df src of
        Inl e \<Rightarrow> Inl e
      | Inr vs \<Rightarrow> (case traverse f vs of
                    Inl e \<Rightarrow> Inl e
                  | Inr ws \<Rightarrow> Inr (set_col dst ws df)))"

definition rename_columns :: "(string \<Rightarrow> string) \<Rightarrow> dataframe \<Rightarrow> dataframe" where
  "rename_columns f df =
     \<lparr>columns = map f (columns df), rows = map (map (\<lambda>(k, v). (f k, v))) (rows df)\<rparr>"

definition drop_column :: "string \<Rightarrow> dataframe \<Rightarrow> dataframe" where
  "drop_column c df =
     \<lparr>columns = filter (\<lambda>k. k \<noteq> c) (columns df),
      rows = map (filter (\<lambda>(k, v). k \<noteq> c)) (rows df)\<rparr>"

text \<open>\<open>drop_duplicates\<close> and \<open>unique\<close>: the first occurrence of each value stays.\<close>

fun keep_first :: "'a list \<Rightarrow> 'a list \<Rightarrow> 'a list" where
  "keep_first seen [] = []"
| "keep_first seen (x # xs) =
     (if x \<in> set seen then keep_first seen xs else x # keep_first (x # seen) xs)"

definition drop_duplicates :: "dataframe \<Rightarrow> dataframe" where
  "drop_duplicates df = df\<lparr>rows := keep_first [] (rows df)\<rparr>"

definition unique :: "cell list \<Rightarrow> cell list" where
  "unique vs = keep_first [] vs"

section \<open>The loader\<close>

text \<open>The file \<open>sales_data.csv\<close> as \<open>read_csv\<close> finds it.\<close>

datatype file_state = Missing | Unreadable string | Table dataframe

definition read_csv :: "file_state \<Rightarrow> py_error + dataframe" where
  "read_csv file =
     (case file of
        Missing \<Rightarrow> Inl FileNotFoundError
      | Unreadable msg \<Rightarrow> Inl (ReadError msg)
      | Table df \<Rightarrow> Inr df)"

definition rename_dict :: "string \<Rightarrow> string" where
  "rename_dict c =
     (if c = ''Order_Date'' then ''Date''
      else if c = ''Quantity_Ordered'' then ''Units_Sold''
      else if c = ''Price_Each'' then ''Unit_Price''
      else if c = ''Sales'' then ''Revenue''
      else c)"

text \<open>Lines 16 to 29: headers stripped, spaces to underscores, the index column dropped, renaming.\<close>

definition standardize :: "dataframe \<Rightarrow> dataframe" where
  "standardize df =
     (let df1 = rename_columns (\<lambda>c. replace_space (strip c)) df;
          df2 = (if ''Unnamed:_0'' \<in> set (columns df1) then drop_column ''Unnamed:_0'' df1 else df1)
      in rename_columns rename_dict df2)"

text \<open>An int64 value taken into a float64 operation is converted first.\<close>

definition as_float64 :: "cell \<Rightarrow> rat option" where
  "as_float64 x =
     (case x of CInt n \<Rightarrow> Some (float64 (of_int n)) | CFloat q \<Rightarrow> Some q | _ \<Rightarrow> None)"

text \<open>
  \<open>x * 0.70\<close> on one value of the Revenue column, in float64; \<open>k\<close> is the float64 that the
  literal \<open>0.70\<close> denotes.
\<close>

definition mul_scalar :: "rat \<Rightarrow> cell \<Rightarrow> py_error + cell" where
  "mul_scalar k x =
     (case x of
        CInt n \<Rightarrow> Inr (CFloat (float64 (float64 (of_int n) * k)))
      | CFloat q \<Rightarrow> Inr (CFloat (float64 (q * k)))
      | CNaN \<Rightarrow> Inr CNaN
      | CStr s \<Rightarrow> Inl TypeError
      | CTime t \<Rightarrow> Inl TypeError)"

text \<open>\<open>x - y\<close> on one value each of two columns, the second a float64 column.\<close>

definition sub_cells :: "cell \<times> cell \<Rightarrow> py_error + cell" where
  "sub_cells p =
     (case (as_float64 (fst p), as_float64 (snd p)) of
        (Some a, Some b) \<Rightarrow> Inr (CFloat (float64 (a - b)))
      | (Some a, None) \<Rightarrow> if snd p = CNaN then Inr CNaN else Inl TypeError
      | (None, Some b) \<Rightarrow> if fst p = CNaN then Inr CNaN else Inl TypeError
      | (None, None) \<Rightarrow> if fst p = CNaN \<and> snd p = CNaN then Inr CNaN else Inl TypeError)"

definition date_cell :: "(cell \<Rightarrow> cell option) \<Rightarrow> cell \<Rightarrow> py_error + cell" where
  "date_cell to_datetime x =
     (case to_datetime x of None \<Rightarrow> Inl DateParseError | Some t \<Rightarrow> Inr t)"

definition city_cell :: "cell \<Rightarrow> py_error + cell" where
  "city_cell x =
     (case x of
        CStr s \<Rightarrow> (case city_name s of Some c \<Rightarrow> Inr (CStr c) | None \<Rightarrow> Inl IndexError)
      | _ \<Rightarrow> Inl AttributeError)"

definition region_cell :: "cell \<Rightarrow> py_error + cell" where
  "region_cell x = (case x of CStr s \<Rightarrow> Inr (CStr (get_region s)) | _ \<Rightarrow> Inr (CStr ''Central''))"

definition category_cell :: "cell \<Rightarrow> py_error + cell" where
  "category_cell x = (case x of CStr s \<Rightarrow> Inr (CStr (get_category s)) | _ \<Rightarrow> Inl TypeError)"

text \<open>\<open>df['Profit'] = df['Revenue'] - df['Cost']\<close>.\<close>

definition assign_profit :: "dataframe \<Rightarrow> py_error + dataframe" where
  "assign_profit df =
     (case get_col df ''Revenue'' of
        Inl e \<Rightarrow> Inl e
      | Inr rs \<Rightarrow> (case get_col df ''Cost'' of
          Inl e \<Rightarrow> Inl e
        | Inr cs \<Rightarrow> (case traverse sub_cells (zip rs cs) of
            Inl e \<Rightarrow> Inl e
          | Inr ps \<Rightarrow> Inr (set_col ''Profit'' ps df))))"

text \<open>
  Lines 33 to 70, in the order of the source. \<open>to_datetime\<close> is pandas' parser on one value
  of the column (\<open>None\<close> where it raises).
\<close>

definition derive :: "(cell \<Rightarrow> cell option) \<Rightarrow> dataframe \<Rightarrow> py_error + dataframe" where
  "derive to_datetime df0 =
     (case apply_col ''Date'' ''Date'' (date_cell to_datetime) df0 of Inl e \<Rightarrow> Inl e | Inr df1 \<Rightarrow>
     (case apply_col ''Cost'' ''Revenue'' (mul_scalar (float64 (7 / 10))) df1 of Inl e \<Rightarrow> Inl e | Inr df2 \<Rightarrow>
     (case assign_profit df2 of Inl e \<Rightarrow> Inl e | Inr df3 \<Rightarrow>
     (case apply_col ''City_Name'' ''Purchase_Address'' city_cell df3 of Inl e \<Rightarrow> Inl e | Inr df4 \<Rightarrow>
     (case apply_col ''Region'' ''City_Name'' region_cell df4 of Inl e \<Rightarrow> Inl e | Inr df5 \<Rightarrow>
     (case apply_col ''Category'' ''Product'' category_cell df5 of Inl e \<Rightarrow> Inl e | Inr df6 \<Rightarrow>
      Inr (drop_duplicates df6)))))))"

text \<open>What the page shows, in order.\<close>

datatype ui =
    PageConfig
  | Title string
  | ErrorMsg string
  | SidebarHeader string
  | Multiselect string "cell list"
  | WarningMsg string
  | Metric string int
  | Markdown string
  | Subheader string
  | LineChart string
  | BarChart string "(string \<times> rat) list"
  | PieChart string "(string \<times> rat) list"
  | Heatmap string

definition not_found_message :: string where
  "not_found_message =
     ''The '' @ [CHR 0x27] @ ''sales_data.csv'' @ [CHR 0x27] @
     '' file was not found. Please make sure it is in the same directory as the script.''"

text \<open>
  \<open>load_data\<close>: the messages it shows and the frame it returns (\<open>None\<close> for Python's None),
  or the exception that leaves it. Only \<open>read_csv\<close> is inside the \<open>try\<close>.
\<close>

definition load_data ::
  "(cell \<Rightarrow> cell option) \<Rightarrow> file_state \<Rightarrow> py_error + (ui list \<times> dataframe option)" where
  "load_data to_datetime file =
     (case read_csv file of
        Inl e \<Rightarrow> (if e = FileNotFoundError then Inr ([ErrorMsg not_found_message], None)
                  else Inl e)
      | Inr df \<Rightarrow> (case derive to_datetime (standardize df) of
                     Inl e \<Rightarrow> Inl e
                   | Inr d \<Rightarrow> Inr ([], Some d)))"

section \<open>The presenter\<close>

text \<open>\<open>s.isin(selected)\<close> and \<open>df[flags]\<close>.\<close>

definition isin :: "cell list \<Rightarrow> cell list \<Rightarrow> bool list" where
  "isin vs selected = map (\<lambda>v. v \<in> set selected) vs"

definition boolean_index :: "dataframe \<Rightarrow> bool list \<Rightarrow> dataframe" where
  "boolean_index df flags = df\<lparr>rows := map fst (filter snd (zip (rows df) flags))\<rparr>"

definition empty_df :: "dataframe \<Rightarrow> bool" where
  "empty_df df = (rows df = [] \<or> columns df = [])"

text \<open>\<open>int(x)\<close> on a number: the fraction is cut off, towards zero.\<close>

definition py_int :: "rat \<Rightarrow> int" where
  "py_int q = (if 0 \<le> q then \<lfloor>q\<rfloor> else \<lceil>q\<rceil>)"

text \<open>
  \<open>int(s)\<close> on a string: blanks around it are dropped, a sign may lead, then decimal
  digits, single underscores allowed between two digits.
\<close>

definition is_digit :: "char \<Rightarrow> bool" where
  "is_digit c = (c \<in> set ''0123456789'')"

fun digits_ok :: "bool \<Rightarrow> string \<Rightarrow> bool" where
  "digits_ok after_digit [] = after_digit"
| "digits_ok after_digit (c # cs) =
     (if is_digit c then digits_ok True cs
      else c = CHR ''_'' \<and> after_digit \<and> digits_ok False cs)"

definition decimal :: "string \<Rightarrow> int" where
  "decimal ds = foldl (\<lambda>n c. 10 * n + (of_char c - 48)) 0 ds"

definition int_of_str :: "string \<Rightarrow> int option" where
  "int_of_str s =
     (let t = strip s;
          negative = (t \<noteq> [] \<and> hd t = CHR ''-'');
          body = (if t \<noteq> [] \<and> (hd t = CHR ''-'' \<or> hd t = CHR ''+'') then tl t else t)
      in if digits_ok False body
         then Some ((if negative then - 1 else 1) * decimal (filter is_digit body))
         else None)"

text \<open>\<open>int(x)\<close> on what \<open>Series.sum()\<close> returned.\<close>

definition int_of_cell :: "cell \<Rightarrow> py_error + int" where
  "int_of_cell x =
     (case x of
        CInt n \<Rightarrow> Inr n
      | CFloat q \<Rightarrow> Inr (py_int q)
      | CNaN \<Rightarrow> Inl ValueError
      | CStr s \<Rightarrow> (case int_of_str s of Some n \<Rightarrow> Inr n | None \<Rightarrow> Inl ValueError)
      | CTime t \<Rightarrow> Inl TypeError)"

text \<open>
  \<open>int(df_filtered[c].sum())\<close>. \<open>Series.sum()\<close> is pandas' and numpy's: \<open>series_sum\<close> stands
  for it, whatever the order in which it adds a column and the rounding and wrap-around of
  each addition.
\<close>

definition total ::
  "(cell list \<Rightarrow> py_error + cell) \<Rightarrow> string \<Rightarrow> dataframe \<Rightarrow> py_error + int" where
  "total series_sum c df =
     (case get_col df c of
        Inl e \<Rightarrow> Inl e
      | Inr vs \<Rightarrow> (case series_sum vs of Inl e \<Rightarrow> Inl e | Inr s \<Rightarrow> int_of_cell s))"

text \<open>
  \<open>Series.sum()\<close> on the sample files: missing values are left out and the others added
  in the order of the column, int64 with wrap-around, float64 with rounding, text joined;
  a sum beyond the largest float64 is an infinity, on which \<open>int\<close> raises. numpy adds the
  float64 values of a column in an order of its own, which can change the last bits of a
  sum; in the sample files every sum of amounts is exact, so there the order is of no
  account.
\<close>

definition finite_or_raise :: "rat \<Rightarrow> py_error + cell" where
  "finite_or_raise r = (if finite64 r then Inr (CFloat r) else Inl OverflowError)"

definition add_cells :: "cell \<Rightarrow> cell \<Rightarrow> py_error + cell" where
  "add_cells x y =
     (case (x, y) of
        (CInt a, CInt b) \<Rightarrow> Inr (CInt (wrap64 (a + b)))
      | (CStr a, CStr b) \<Rightarrow> Inr (CStr (a @ b))
      | _ \<Rightarrow> (case (as_float64 x, as_float64 y) of
                (Some a, Some b) \<Rightarrow> finite_or_raise (float64 (a + b))
              | _ \<Rightarrow> Inl TypeError))"

fun add_all :: "cell \<Rightarrow> cell list \<Rightarrow> py_error + cell" where
  "add_all acc [] = Inr acc"
| "add_all acc (x # xs) =
     (case add_cells acc x of Inl e \<Rightarrow> Inl e | Inr acc' \<Rightarrow> add_all acc' xs)"

definition is_text :: "cell \<Rightarrow> bool" where
  "is_text x = (case x of CStr s \<Rightarrow> True | _ \<Rightarrow> False)"

definition sum_in_order :: "cell list \<Rightarrow> py_error + cell" where
  "sum_in_order vs =
     (if vs \<noteq> [] \<and> list_all is_text vs then add_all (CStr []) vs
      else add_all (CInt 0) (filter (\<lambda>v. v \<noteq> CNaN) vs))"

definition num :: "cell \<Rightarrow> rat option" where
  "num x = (case x of CInt n \<Rightarrow> Some (of_int n) | CFloat q \<Rightarrow> Some q | _ \<Rightarrow> None)"

definition num0 :: "cell \<Rightarrow> rat" where
  "num0 x = (case num x of Some q \<Rightarrow> q | None \<Rightarrow> 0)"

text \<open>
  \<open>df.groupby(key)[val].sum()\<close> for a column of strings as key: one entry per distinct key,
  keys in ascending order, missing values counting nothing. The entries carry the plain
  sums of the values; the rounding of pandas' own summation is left out, the charts being
  looked at for their keys and their order only.
\<close>

definition groupby_sum :: "string \<Rightarrow> string \<Rightarrow> dataframe \<Rightarrow> (string \<times> rat) list" where
  "groupby_sum key val df =
     (let kvs = List.map_filter
                  (\<lambda>r. case cell_of r key of CStr k \<Rightarrow> Some (k, num0 (cell_of r val)) | _ \<Rightarrow> None)
                  (rows df)
      in map (\<lambda>k. (k, sum_list (map snd (filter (\<lambda>p. fst p = k) kvs))))
             (sort (remdups (map fst kvs))))"

text \<open>\<open>s.sort_values(ascending=False)\<close> and \<open>s.nlargest(n)\<close>: equal values keep their order.\<close>

definition sort_values_desc :: "(string \<times> rat) list \<Rightarrow> (string \<times> rat) list" where
  "sort_values_desc s = sort_key (\<lambda>p. - snd p) s"

definition nlargest :: "nat \<Rightarrow> (string \<times> rat) list \<Rightarrow> (string \<times> rat) list" where
  "nlargest n s = take n (sort_key (\<lambda>p. - snd p) s)"

definition top_5_products :: "dataframe \<Rightarrow> (string \<times> rat) list" where
  "top_5_products df_filtered = nlargest 5 (groupby_sum ''Product'' ''Revenue'' df_filtered)"

text \<open>What a run of \<open>main\<close> has shown, and the exception that ended it, if one did.\<close>

record outcome =
  shown :: "ui list"
  raised :: "py_error option"

text \<open>
  Lines 116 to 149. The line chart and the heat map are recorded without their data
  (calendar months and Pearson correlations are not modelled, nor the \<open>Month\<close> column added
  to the filtered copy); the heat map needs all five numeric columns to be present, and
  what \<open>corr\<close> does with non-numeric values is left out.
\<close>

definition charts :: "dataframe \<Rightarrow> outcome" where
  "charts df_filtered =
     (let evs =
        [Subheader ''Monthly Revenue & Profit Trends'',
         LineChart ''Monthly Trends'',
         Subheader ''Revenue by Category'',
         BarChart ''Revenue by Category''
           (sort_values_desc (groupby_sum ''Category'' ''Revenue'' df_filtered)),
         Subheader ''Revenue Share by Region'',
         PieChart ''Revenue Share by Region'' (groupby_sum ''Region'' ''Revenue'' df_filtered),
         Subheader ''Top 5 Products by Revenue'',
         BarChart ''Top 5 Products'' (top_5_products df_filtered),
         Subheader ''Correlation Analysis'']
      in if ''Unit_Price'' \<in> set (columns df_filtered)
         then \<lparr>shown = evs @ [Heatmap ''Correlation Matrix of Numerical Features''],
               raised = None\<rparr>
         else \<lparr>shown = evs, raised = Some (KeyError ''Unit_Price'')\<rparr>)"

text \<open>Lines 104 to 113: the three totals, then the charts.\<close>

definition metrics_and_charts :: "(cell list \<Rightarrow> py_error + cell) \<Rightarrow> dataframe \<Rightarrow> outcome" where
  "metrics_and_charts series_sum df_filtered =
     (case total series_sum ''Revenue'' df_filtered of
        Inl e \<Rightarrow> \<lparr>shown = [], raised = Some e\<rparr>
      | Inr total_revenue \<Rightarrow>
     (case total series_sum ''Profit'' df_filtered of
        Inl e \<Rightarrow> \<lparr>shown = [], raised = Some e\<rparr>
      | Inr total_profit \<Rightarrow>
     (case total series_sum ''Units_Sold'' df_filtered of
        Inl e \<Rightarrow> \<lparr>shown = [], raised = Some e\<rparr>
      | Inr total_units_sold \<Rightarrow>
         (let c = charts df_filtered
          in \<lparr>shown = [Metric ''Total Revenue'' total_revenue,
                        Metric ''Total Profit'' total_profit,
                        Metric ''Total Units Sold'' total_units_sold,
                        Markdown ''---''] @ shown c,
               raised = raised c\<rparr>))))"

text \<open>
  Line 97: \<open>df[df["Region"].isin(selected_region) & df["Category"].isin(selected_category)]\<close>.
\<close>

definition filter_selection :: "dataframe \<Rightarrow> cell list \<Rightarrow> cell list \<Rightarrow> py_error + dataframe" where
  "filter_selection df selected_region selected_category =
     (case get_col df ''Region'' of
        Inl e \<Rightarrow> Inl e
      | Inr regions \<Rightarrow>
     (case get_col df ''Category'' of
        Inl e \<Rightarrow> Inl e
      | Inr categories \<Rightarrow>
         Inr (boolean_index df
                (map (\<lambda>(a, b). a \<and> b)
                   (zip (isin regions selected_region) (isin categories selected_category))))))"

text \<open>
  Lines 84 to 101, and on: the two filters (their options are the distinct values of the
  column), the selection the user made in them, the filtered frame, the warning when it is
  empty.
\<close>

definition present ::
  "(cell list \<Rightarrow> py_error + cell) \<Rightarrow> dataframe \<Rightarrow> cell list \<Rightarrow> cell list \<Rightarrow> outcome" where
  "present series_sum df selected_region selected_category =
     (case get_col df ''Region'' of
        Inl e \<Rightarrow> \<lparr>shown = [SidebarHeader ''Filters''], raised = Some e\<rparr>
      | Inr regions \<Rightarrow>
     (case get_col df ''Category'' of
        Inl e \<Rightarrow> \<lparr>shown = [SidebarHeader ''Filters'', Multiselect ''Region'' (unique regions)],
                  raised = Some e\<rparr>
      | Inr categories \<Rightarrow>
         (let sidebar = [SidebarHeader ''Filters'',
                         Multiselect ''Region'' (unique regions),
                         Multiselect ''Category'' (unique categories)]
          in case filter_selection df selected_region selected_category of
               Inl e \<Rightarrow> \<lparr>shown = sidebar, raised = Some e\<rparr>
             | Inr df_filtered \<Rightarrow>
                 if empty_df df_filtered
                 then \<lparr>shown = sidebar @
                               [WarningMsg ''No data available for the selected filters.''],
                       raised = None\<rparr>
                 else (let m = metrics_and_charts series_sum df_filtered
                       in \<lparr>shown = sidebar @ shown m, raised = raised m\<rparr>))))"

text \<open>
  \<open>main\<close>, given what the two library functions do (\<open>Series.sum\<close> and \<open>pd.to_datetime\<close>),
  the file and the user's two selections.
\<close>

definition main ::
  "(cell list \<Rightarrow> py_error + cell) \<Rightarrow> (cell \<Rightarrow> cell option) \<Rightarrow> file_state
     \<Rightarrow> cell list \<Rightarrow> cell list \<Rightarrow> outcome" where
  "main series_sum to_datetime file selected_region selected_category =
     (let page = [PageConfig, Title ''Sales Data Analysis Dashboard'']
      in case load_data to_datetime file of
           Inl e \<Rightarrow> \<lparr>shown = page, raised = Some e\<rparr>
         | Inr (msgs, None) \<Rightarrow> \<lparr>shown = page @ msgs, raised = None\<rparr>
         | Inr (msgs, Some df) \<Rightarrow>
             (let p = present series_sum df selected_region selected_category
              in \<lparr>shown = page @ msgs @ shown p, raised = raised p\<rparr>))"

section \<open>Sample inputs\<close>

text \<open>A file whose two rows agree in every column, and what the loader makes of it.\<close>

definition twin_sample :: dataframe where
  "twin_sample =
     \<lparr>columns = [''Order Date'', ''Quantity Ordered'', ''Price Each'', ''Sales'', ''Product'',
                 ''Purchase Address''],
      rows = [[(''Order Date'', CStr ''04/19/19''), (''Quantity Ordered'', CInt 2),
               (''Price Each'', CFloat (5 / 4)), (''Sales'', CFloat (5 / 2)),
               (''Product'', CStr ''USB-C Charging Cable''),
               (''Purchase Address'', CStr ''917 1st St, Boston, MA 02215'')],
              [(''Order Date'', CStr ''04/19/19''), (''Quantity Ordered'', CInt 2),
               (''Price Each'', CFloat (5 / 4)), (''Sales'', CFloat (5 / 2)),
               (''Product'', CStr ''USB-C Charging Cable''),
               (''Purchase Address'', CStr ''917 1st St, Boston, MA 02215'')]]\<rparr>"

definition twin_cleaned :: dataframe where
  "twin_cleaned =
     \<lparr>columns = [''Date'', ''Units_Sold'', ''Unit_Price'', ''Revenue'', ''Product'',
                 ''Purchase_Address'', ''Cost'', ''Profit'', ''City_Name'', ''Region'', ''Category''],
      rows = [[(''Date'', CStr ''04/19/19''), (''Units_Sold'', CInt 2),
               (''Unit_Price'', CFloat (5 / 4)), (''Revenue'', CFloat (5 / 2)),
               (''Product'', CStr ''USB-C Charging Cable''),
               (''Purchase_Address'', CStr ''917 1st St, Boston, MA 02215''),
               (''Cost'', CFloat (7 / 4)), (''Profit'', CFloat (3 / 4)),
               (''City_Name'', CStr ''Boston''), (''Region'', CStr ''East''),
               (''Category'', CStr ''Accessories'')]]\<rparr>"

text \<open>A file with one row, whose address has no comma.\<close>

definition bad_address_sample :: dataframe where
  "bad_address_sample =
     \<lparr>columns = [''Order Date'', ''Quantity Ordered'', ''Price Each'', ''Sales'', ''Product'',
                 ''Purchase Address''],
      rows = [[(''Order Date'', CStr ''04/19/19''), (''Quantity Ordered'', CInt 1),
               (''Price Each'', CFloat 700), (''Sales'', CFloat 700),
               (''Product'', CStr ''iPhone''),
               (''Purchase Address'', CStr ''44 Pine St Austin TX 73301'')]]\<rparr>"

text \<open>A file with one sale each of two products of the same price.\<close>

definition tie_sample :: dataframe where
  "tie_sample =
     \<lparr>columns = [''Order Date'', ''Quantity Ordered'', ''Price Each'', ''Sales'', ''Product'',
                 ''Purchase Address''],
      rows = [[(''Order Date'', CStr ''04/19/19''), (''Quantity Ordered'', CInt 1),
               (''Price Each'', CFloat 600), (''Sales'', CFloat 600),
               (''Product'', CStr ''LG Dryer''),
               (''Purchase Address'', CStr ''44 Pine St, Austin, TX 73301'')],
              [(''Order Date'', CStr ''04/20/19''), (''Quantity Ordered'', CInt 1),
               (''Price Each'', CFloat 600), (''Sales'', CFloat 600),
               (''Product'', CStr ''Google Phone''),
               (''Purchase Address'', CStr ''12 Elm St, Dallas, TX 75001'')]]\<rparr>"

text \<open>
  A file with seven sales of six products, no two products with the same total, and what
  the loader makes of it. Every amount, and every sum of amounts, is exact in float64.
\<close>

definition six_sample :: dataframe where
  "six_sample =
     \<lparr>columns = [''Order Date'', ''Quantity Ordered'', ''Price Each'', ''Sales'', ''Product'',
                 ''Purchase Address''],
      rows = [[(''Order Date'', CStr ''04/19/19''), (''Quantity Ordered'', CInt 1),
               (''Price Each'', CFloat (5 / 2)), (''Sales'', CFloat (5 / 2)),
               (''Product'', CStr ''USB-C Charging Cable''),
               (''Purchase Address'', CStr ''44 Pine St, Austin, TX 73301'')],
              [(''Order Date'', CStr ''04/20/19''), (''Quantity Ordered'', CInt 1),
               (''Price Each'', CFloat (600)), (''Sales'', CFloat (600)),
               (''Product'', CStr ''Google Phone''),
               (''Purchase Address'', CStr ''12 Elm St, Dallas, TX 75001'')],
              [(''Order Date'', CStr ''04/21/19''), (''Quantity Ordered'', CInt 1),
               (''Price Each'', CFloat (1700)), (''Sales'', CFloat (1700)),
               (''Product'', CStr ''Macbook Pro Laptop''),
               (''Purchase Address'', CStr ''3 Hill St, San Francisco, CA 94016'')],
              [(''Order Date'', CStr ''04/22/19''), (''Quantity Ordered'', CInt 2),
               (''Price Each'', CFloat (5 / 2)), (''Sales'', CFloat (5)),
               (''Product'', CStr ''USB-C Charging Cable''),
               (''Purchase Address'', CStr ''7 Lake St, Portland, OR 97035'')],
              [(''Order Date'', CStr ''04/23/19''), (''Quantity Ordered'', CInt 1),
               (''Price Each'', CFloat (1000)), (''Sales'', CFloat (1000)),
               (''Product'', CStr ''iPhone''),
               (''Purchase Address'', CStr ''917 1st St, Boston, MA 02215'')],
              [(''Order Date'', CStr ''04/24/19''), (''Quantity Ordered'', CInt 1),
               (''Price Each'', CFloat (150)), (''Sales'', CFloat (150)),
               (''Product'', CStr ''27in FHD Monitor''),
               (''Purchase Address'', CStr ''5 Oak St, Seattle, WA 98101'')],
              [(''Order Date'', CStr ''04/25/19''), (''Quantity Ordered'', CInt 1),
               (''Price Each'', CFloat (100)), (''Sales'', CFloat (100)),
               (''Product'', CStr ''Bose SoundSport Headphones''),
               (''Purchase Address'', CStr ''9 Bay St, Atlanta, GA 30301'')]]\<rparr>"

definition six_cleaned :: dataframe where
  "six_cleaned =
     \<lparr>columns = [''Date'', ''Units_Sold'', ''Unit_Price'', ''Revenue'', ''Product'',
                 ''Purchase_Address'', ''Cost'', ''Profit'', ''City_Name'', ''Region'', ''Category''],
      rows = [[(''Date'', CStr ''04/19/19''), (''Units_Sold'', CInt 1),
               (''Unit_Price'', CFloat (5 / 2)), (''Revenue'', CFloat (5 / 2)),
               (''Product'', CStr ''USB-C Charging Cable''),
               (''Purchase_Address'', CStr ''44 Pine St, Austin, TX 73301''),
               (''Cost'', CFloat (7 / 4)), (''Profit'', CFloat (3 / 4)),
               (''City_Name'', CStr ''Austin''), (''Region'', CStr ''Central''),
               (''Category'', CStr ''Accessories'')],
              [(''Date'', CStr ''04/20/19''), (''Units_Sold'', CInt 1),
               (''Unit_Price'', CFloat (600)), (''Revenue'', CFloat (600)),
               (''Product'', CStr ''Google Phone''),
               (''Purchase_Address'', CStr ''12 Elm St, Dallas, TX 75001''),
               (''Cost'', CFloat (420)), (''Profit'', CFloat (180)),
               (''City_Name'', CStr ''Dallas''), (''Region'', CStr ''South''),
               (''Category'', CStr ''Mobile'')],
              [(''Date'', CStr ''04/21/19''), (''Units_Sold'', CInt 1),
               (''Unit_Price'', CFloat (1700)), (''Revenue'', CFloat (1700)),
               (''Product'', CStr ''Macbook Pro Laptop''),
               (''Purchase_Address'', CStr ''3 Hill St, San Francisco, CA 94016''),
               (''Cost'', CFloat (1190)), (''Profit'', CFloat (510)),
               (''City_Name'', CStr ''San Francisco''), (''Region'', CStr ''West''),
               (''Category'', CStr ''Electronics'')],
              [(''Date'', CStr ''04/22/19''), (''Units_Sold'', CInt 2),
               (''Unit_Price'', CFloat (5 / 2)), (''Revenue'', CFloat (5)),
               (''Product'', CStr ''USB-C Charging Cable''),
               (''Purchase_Address'', CStr ''7 Lake St, Portland, OR 97035''),
               (''Cost'', CFloat (7 / 2)), (''Profit'', CFloat (3 / 2)),
               (''City_Name'', CStr ''Portland''), (''Region'', CStr ''North''),
               (''Category'', CStr ''Accessories'')],
              [(''Date'', CStr ''04/23/19''), (''Units_Sold'', CInt 1),
               (''Unit_Price'', CFloat (1000)), (''Revenue'', CFloat (1000)),
               (''Product'', CStr ''iPhone''),
               (''Purchase_Address'', CStr ''917 1st St, Boston, MA 02215''),
               (''Cost'', CFloat (700)), (''Profit'', CFloat (300)),
               (''City_Name'', CStr ''Boston''), (''Region'', CStr ''East''),
               (''Category'', CStr ''Mobile'')],
              [(''Date'', CStr ''04/24/19''), (''Units_Sold'', CInt 1),
               (''Unit_Price'', CFloat (150)), (''Revenue'', CFloat (150)),
               (''Product'', CStr ''27in FHD Monitor''),
               (''Purchase_Address'', CStr ''5 Oak St, Seattle, WA 98101''),
               (''Cost'', CFloat (105)), (''Profit'', CFloat (45)),
               (''City_Name'', CStr ''Seattle''), (''Region'', CStr ''North''),
               (''Category'', CStr ''Electronics'')],
              [(''Date'', CStr ''04/25/19''), (''Units_Sold'', CInt 1),
               (''Unit_Price'', CFloat (100)), (''Revenue'', CFloat (100)),
               (''Product'', CStr ''Bose SoundSport Headphones''),
               (''Purchase_Address'', CStr ''9 Bay St, Atlanta, GA 30301''),
               (''Cost'', CFloat (70)), (''Profit'', CFloat (30)),
               (''City_Name'', CStr ''Atlanta''), (''Region'', CStr ''South''),
               (''Category'', CStr ''Accessories'')]]\<rparr>"

text \<open>The selection a session starts with on that file: every region and every category.\<close>

definition six_regions :: "cell list" where
  "six_regions = [CStr ''Central'', CStr ''South'', CStr ''West'', CStr ''North'', CStr ''East'']"

definition six_categories :: "cell list" where
  "six_categories = [CStr ''Accessories'', CStr ''Mobile'', CStr ''Electronics'']"

section \<open>Substring search\<close>

lemma is_prefix_iff: "is_prefix p s \<longleftrightarrow> (\<exists>b. s = p @ b)"
  by (induction p s rule: is_prefix.induct) auto

lemma py_in_iff: "py_in p s \<longleftrightarrow> substring_of p s"
proof (induction s)
  case Nil
  show ?case by (auto simp: substring_of_def)
next
  case (Cons x xs)
  have "substring_of p (x # xs) \<longleftrightarrow> (\<exists>b. x # xs = p @ b) \<or> substring_of p xs"
  proof
    assume "substring_of p (x # xs)"
    then obtain a b where ab: "x # xs = a @ p @ b"
      unfolding substring_of_def by blast
    show "(\<exists>b. x # xs = p @ b) \<or> substring_of p xs"
    proof (cases a)
      case Nil
      with ab show ?thesis by auto
    next
      case (Cons y ys)
      with ab have "xs = ys @ p @ b" by simp
      then show ?thesis unfolding substring_of_def by blast
    qed
  next
    assume "(\<exists>b. x # xs = p @ b) \<or> substring_of p xs"
    then show "substring_of p (x # xs)"
    proof
      assume "\<exists>b. x # xs = p @ b"
      then obtain b where "x # xs = [] @ p @ b" by auto
      then show ?thesis unfolding substring_of_def by blast
    next
      assume "substring_of p xs"
      then obtain a b where "xs = a @ p @ b"
        unfolding substring_of_def by blast
      then have "x # xs = (x # a) @ p @ b" by simp
      then show ?thesis unfolding substring_of_def by blast
    qed
  qed
  with Cons show ?case by (simp add: is_prefix_iff)
qed

lemma substring_of_trans:
  "substring_of p q \<Longrightarrow> substring_of q s \<Longrightarrow> substring_of p s"
proof -
  assume "substring_of p q" and "substring_of q s"
  then obtain a b c d where "q = a @ p @ b" and "s = c @ q @ d"
    unfolding substring_of_def by blast
  then have "s = (c @ a) @ p @ (b @ d)" by simp
  then show ?thesis unfolding substring_of_def by blast
qed

section \<open>float64 rounding on known values\<close>

text \<open>
  The literals 0.70 and 0.1 as float64, a value that is a float64 already, a tie that goes
  to the even neighbour, and an int64 too long for 53 bits.
\<close>

lemma float64_examples:
  "float64 (7 / 10) = 3152519739159347 / 4503599627370496"
  "float64 (1 / 10) = 3602879701896397 / 36028797018963968"
  "float64 (5 / 2) = 5 / 2"
  "float64 (90 * (3152519739159347 / 4503599627370496)) = 8866461766385663 / 140737488355328"
  "float64 (of_int (2 ^ 53 + 1)) = of_int (2 ^ 53)"
  "float64 (of_int (2 ^ 53 + 3)) = of_int (2 ^ 53 + 4)"
  "float64 0 = 0"
  "float64 (- (1 / 10)) = - (3602879701896397 / 36028797018963968)"
  by code_simp+

lemma wrap64_examples:
  "wrap64 (2 ^ 63 - 1 + 1) = - (2 ^ 63)" "wrap64 5 = 5" "wrap64 (- (2 ^ 63) - 1) = 2 ^ 63 - 1"
  by (simp_all add: wrap64_def)

lemma int_of_str_examples:
  "int_of_str '' 12 '' = Some 12" "int_of_str ''-7'' = Some (- 7)" "int_of_str ''1_000'' = Some 1000"
  "int_of_str ''1__0'' = None" "int_of_str ''12a'' = None" "int_of_str [] = None"
  by code_simp+

section \<open>Category rules\<close>

text \<open>
  C1. The Category of a product follows ordered, case-sensitive substring rules, the first
  match winning: Electronics when the product contains Laptop, Monitor or PC; otherwise
  Mobile when it contains iPhone or Phone; otherwise Accessories when it contains Cable,
  Headphones, Wired, Charger or Machine; otherwise Other. The result is always one of
  these four labels.
\<close>

theorem get_category_rules:
  "get_category product =
     (if substring_of ''Laptop'' product \<or> substring_of ''Monitor'' product
         \<or> substring_of ''PC'' product then ''Electronics''
      else if substring_of ''iPhone'' product \<or> substring_of ''Phone'' product then ''Mobile''
      else if substring_of ''Cable'' product \<or> substring_of ''Headphones'' product
         \<or> substring_of ''Wired'' product \<or> substring_of ''Charger'' product
         \<or> substring_of ''Machine'' product then ''Accessories''
      else ''Other'')
   \<and> get_category product \<in> {''Electronics'', ''Mobile'', ''Accessories'', ''Other''}"
  by (simp add: get_category_def py_in_iff)

text \<open>
  C10, as amended. A product that contains Headphones and none of Laptop, Monitor, PC and
  Phone is an Accessories product (a product without Phone is also without iPhone); the
  Mobile keyword Phone, with its capital P, does not occur in the word Headphones itself.
\<close>

theorem headphones_accessories:
  "(substring_of ''Headphones'' product \<and> \<not> substring_of ''Laptop'' product
      \<and> \<not> substring_of ''Monitor'' product \<and> \<not> substring_of ''PC'' product
      \<and> \<not> substring_of ''Phone'' product
    \<longrightarrow> get_category product = ''Accessories'' \<and> get_category product \<noteq> ''Mobile'')
   \<and> \<not> substring_of ''Phone'' ''Headphones''"
proof -
  have ci: "\<not> substring_of ''Phone'' ''Headphones''"
    by (simp add: py_in_iff [symmetric])
  have ip: "substring_of ''Phone'' ''iPhone''"
    by (simp add: py_in_iff [symmetric])
  have "\<not> substring_of ''iPhone'' product" if "\<not> substring_of ''Phone'' product"
    using that substring_of_trans [OF ip] by blast
  then show ?thesis
    using ci by (auto simp: get_category_def py_in_iff)
qed

theorem headphones_accessories_witness:
  "get_category ''Bose SoundSport Headphones'' = ''Accessories''"
proof -
  have "substring_of ''Headphones'' ''Bose SoundSport Headphones''
      \<and> \<not> substring_of ''Laptop'' ''Bose SoundSport Headphones''
      \<and> \<not> substring_of ''Monitor'' ''Bose SoundSport Headphones''
      \<and> \<not> substring_of ''PC'' ''Bose SoundSport Headphones''
      \<and> \<not> substring_of ''Phone'' ''Bose SoundSport Headphones''"
    by (simp add: py_in_iff [symmetric])
  with headphones_accessories [of "''Bose SoundSport Headphones''"] show ?thesis
    by blast
qed

text \<open>
  The claim as first stated (Headphones and none of Laptop, Monitor, PC always gives
  Accessories) fails where the product also names a phone: the Mobile rule comes first.
\<close>

theorem headphones_mobile_counterexample:
  "substring_of ''Headphones'' ''iPhone Headphones''
   \<and> \<not> substring_of ''Laptop'' ''iPhone Headphones''
   \<and> \<not> substring_of ''Monitor'' ''iPhone Headphones''
   \<and> \<not> substring_of ''PC'' ''iPhone Headphones''
   \<and> get_category ''iPhone Headphones'' = ''Mobile''
   \<and> get_category ''iPhone Headphones'' \<noteq> ''Accessories''"
  by (simp add: get_category_def py_in_iff [symmetric])

section \<open>Region lookup\<close>

lemma strip_examples:
  "strip '' Boston'' = ''Boston''" "strip '' Austin '' = ''Austin''" "strip ''Boston'' = ''Boston''"
  by (simp_all add: strip_def py_isspace_def)

lemma city_name_examples:
  "city_name ''917 1st St, Boston, MA 02215'' = Some ''Boston''"
  "city_name ''44 Pine St, Austin, TX 73301'' = Some ''Austin''"
  by (simp_all add: city_name_def strip_def py_isspace_def)

lemma get_region_examples:
  "get_region ''Boston'' = ''East''" "get_region ''Austin'' = ''Central''"
  "get_region ''boston'' = ''Central''" "get_region '' Boston'' = ''Central''"
  by (simp_all add: get_region_def)

text \<open>
  C2. The Region of a (trimmed) city name is an exact, case-sensitive lookup: New York City
  and Boston are East, San Francisco and Los Angeles are West, Dallas and Atlanta are South,
  Seattle and Portland are North, and every other name is Central. The result is always one
  of these five labels.
\<close>

theorem get_region_lookup:
  "(get_region city = ''East'' \<longleftrightarrow> city = ''New York City'' \<or> city = ''Boston'')
   \<and> (get_region city = ''West'' \<longleftrightarrow> city = ''San Francisco'' \<or> city = ''Los Angeles'')
   \<and> (get_region city = ''South'' \<longleftrightarrow> city = ''Dallas'' \<or> city = ''Atlanta'')
   \<and> (get_region city = ''North'' \<longleftrightarrow> city = ''Seattle'' \<or> city = ''Portland'')
   \<and> (get_region city = ''Central'' \<longleftrightarrow>
        city \<notin> {''New York City'', ''Boston'', ''San Francisco'', ''Los Angeles'',
                  ''Dallas'', ''Atlanta'', ''Seattle'', ''Portland''})
   \<and> get_region city \<in> {''East'', ''West'', ''South'', ''North'', ''Central''}"
  by (auto simp: get_region_def)

section \<open>Failures of the loader\<close>

lemma traverse_Inl: "traverse f xs = Inl e \<Longrightarrow> \<exists>x \<in> set xs. f x = Inl e"
  by (induction xs arbitrary: e) (auto split: sum.splits)

lemma traverse_fails: "x \<in> set xs \<Longrightarrow> f x = Inl e \<Longrightarrow> \<exists>e'. traverse f xs = Inl e'"
  by (induction xs) (auto split: sum.splits)

text \<open>
  C5. When the source file is missing, the loader signals the failure (it returns None, no
  frame at all) after showing a message that names the file, says that it was not found
  and where it has to be; \<open>main\<close> stops there: the page holds its title and that message,
  and no filter, metric or chart.
\<close>

theorem missing_file_halts:
  "load_data to_datetime Missing = Inr ([ErrorMsg not_found_message], None)
   \<and> main series_sum to_datetime Missing selected_region selected_category =
       \<lparr>shown = [PageConfig, Title ''Sales Data Analysis Dashboard'', ErrorMsg not_found_message],
        raised = None\<rparr>
   \<and> not_found_message =
       ''The '' @ [CHR 0x27] @ ''sales_data.csv'' @ [CHR 0x27] @
       '' file was not found. Please make sure it is in the same directory as the script.''
   \<and> substring_of ''sales_data.csv'' not_found_message
   \<and> substring_of ''was not found'' not_found_message"
proof -
  have "substring_of ''sales_data.csv'' not_found_message"
    "substring_of ''was not found'' not_found_message"
    by (simp_all add: py_in_iff [symmetric] not_found_message_def)
  then show ?thesis
    by (simp add: load_data_def read_csv_def main_def not_found_message_def)
qed

lemma load_data_Table:
  "load_data td (Table df) =
     (case derive td (standardize df) of Inl e \<Rightarrow> Inl e | Inr d \<Rightarrow> Inr ([], Some d))"
  by (simp add: load_data_def read_csv_def)

lemma derive_no_Date:
  "''Date'' \<notin> set (columns df) \<Longrightarrow> derive td df = Inl (KeyError ''Date'')"
  by (simp add: derive_def apply_col_def get_col_def)

lemma derive_bad_date:
  assumes "''Date'' \<in> set (columns df)" and "r \<in> set (rows df)" and "td (cell_of r ''Date'') = None"
  shows "derive td df = Inl DateParseError"
proof -
  let ?vs = "map (\<lambda>r. cell_of r ''Date'') (rows df)"
  have m: "cell_of r ''Date'' \<in> set ?vs" using assms(2) by auto
  have f: "date_cell td (cell_of r ''Date'') = Inl DateParseError"
    using assms(3) by (simp add: date_cell_def)
  obtain e where e: "traverse (date_cell td) ?vs = Inl e"
    using traverse_fails [of "cell_of r ''Date''" ?vs "date_cell td" DateParseError] m f by auto
  obtain x where "date_cell td x = Inl e" using traverse_Inl [of "date_cell td" ?vs e] e by auto
  then have "e = DateParseError" by (auto simp: date_cell_def split: option.splits)
  with e show ?thesis using assms(1) by (simp add: derive_def apply_col_def get_col_def)
qed

text \<open>
  C9. The loader returns its failure signal (None, after the message) only when the file is
  missing. Every other failure while loading leaves the loader as an exception: a failure
  of \<open>read_csv\<close> itself, a required column such as Date absent after the renaming, a
  Date value that does not parse.
\<close>

theorem load_failure_signal:
  "((\<exists>msgs. load_data to_datetime file = Inr (msgs, None)) \<longleftrightarrow> file = Missing)
   \<and> load_data to_datetime (Unreadable msg) = Inl (ReadError msg)
   \<and> (''Date'' \<notin> set (columns (standardize df))
        \<longrightarrow> load_data to_datetime (Table df) = Inl (KeyError ''Date''))
   \<and> (''Date'' \<in> set (columns (standardize df)) \<and> r \<in> set (rows (standardize df))
        \<and> to_datetime (cell_of r ''Date'') = None
        \<longrightarrow> load_data to_datetime (Table df) = Inl DateParseError)"
proof -
  have "(\<exists>msgs. load_data to_datetime file = Inr (msgs, None)) \<longleftrightarrow> file = Missing"
    by (cases "file") (auto simp: load_data_def read_csv_def split: sum.splits)
  moreover have "load_data to_datetime (Unreadable msg) = Inl (ReadError msg)"
    by (simp add: load_data_def read_csv_def)
  moreover have "load_data to_datetime (Table df) = Inl DateParseError"
    if "''Date'' \<in> set (columns (standardize df))" and "r \<in> set (rows (standardize df))"
      and "to_datetime (cell_of r ''Date'') = None"
    using derive_bad_date [where td = to_datetime and df = "standardize df" and r = r] that
    by (simp add: load_data_Table)
  ultimately show ?thesis
    by (simp add: load_data_Table derive_no_Date)
qed

theorem load_failure_signal_witness:
  "load_data (\<lambda>x. None) (Table \<lparr>columns = [''Sales''], rows = []\<rparr>) = Inl (KeyError ''Date'')
   \<and> load_data (\<lambda>x. None)
        (Table \<lparr>columns = [''Order Date''], rows = [[(''Order Date'', CStr ''soon'')]]\<rparr>)
       = Inl DateParseError"
proof -
  let ?a = "\<lparr>columns = [''Sales''], rows = []\<rparr>"
  let ?b = "\<lparr>columns = [''Order Date''], rows = [[(''Order Date'', CStr ''soon'')]]\<rparr>"
  let ?r = "[(''Date'', CStr ''soon'')]"
  have a: "''Date'' \<notin> set (columns (standardize ?a))"
    by code_simp
  have b: "''Date'' \<in> set (columns (standardize ?b)) \<and> ?r \<in> set (rows (standardize ?b))
      \<and> (\<lambda>x. None) (cell_of ?r ''Date'') = (None :: cell option)"
    by code_simp
  show ?thesis
    using load_failure_signal [where to_datetime = "\<lambda>x. None" and df = ?a] a
      load_failure_signal [where to_datetime = "\<lambda>x. None" and df = ?b and r = ?r] b
    by blast
qed

section \<open>The derivation steps, row by row\<close>

lemma traverse_Inr_map:
  "traverse f xs = Inr ys \<Longrightarrow> ys = map (\<lambda>x. projr (f x)) xs \<and> (\<forall>x\<in>set xs. \<exists>w. f x = Inr w)"
  by (induction xs arbitrary: ys) (auto split: sum.splits)

lemma cell_of_update: "cell_of (AList.update k v r) c = (if c = k then v else cell_of r c)"
  by (simp add: cell_of_def update_conv')

lemma map_zip_same: "map (\<lambda>(r, v). g v r) (zip rs (map h rs)) = map (\<lambda>r. g (h r) r) rs"
  by (induction rs) auto

lemma apply_col_Inr:
  assumes "apply_col dst src f df = Inr df'"
  shows "src \<in> set (columns df)"
    and "columns df' = (if dst \<in> set (columns df) then columns df else columns df @ [dst])"
    and "rows df' = map (\<lambda>r. AList.update dst (projr (f (cell_of r src))) r) (rows df)"
    and "\<And>r. r \<in> set (rows df) \<Longrightarrow> \<exists>w. f (cell_of r src) = Inr w"
proof -
  let ?vs = "map (\<lambda>r. cell_of r src) (rows df)"
  from assms obtain ws where src: "src \<in> set (columns df)"
    and ws: "traverse f ?vs = Inr ws" and df': "df' = set_col dst ws df"
    by (auto simp: apply_col_def get_col_def split: if_splits sum.splits)
  from traverse_Inr_map [of f ?vs ws] ws
  have eq: "ws = map (\<lambda>x. projr (f x)) ?vs" and ok: "\<forall>x\<in>set ?vs. \<exists>w. f x = Inr w"
    by auto
  show "src \<in> set (columns df)" by (rule src)
  show "columns df' = (if dst \<in> set (columns df) then columns df else columns df @ [dst])"
    by (simp add: df' set_col_def)
  have "ws = map (\<lambda>r. projr (f (cell_of r src))) (rows df)"
    using eq by (simp add: o_def)
  then show "rows df' = map (\<lambda>r. AList.update dst (projr (f (cell_of r src))) r) (rows df)"
    by (simp add: df' set_col_def map_zip_same)
  show "\<exists>w. f (cell_of r src) = Inr w" if "r \<in> set (rows df)" for r
    using ok that by auto
qed

lemma zip_two_maps: "zip (map f rs) (map g rs) = map (\<lambda>r. (f r, g r)) rs"
  by (induction rs) auto

lemma assign_profit_Inr:
  assumes "assign_profit df = Inr df'"
  shows "columns df' = (if ''Profit'' \<in> set (columns df) then columns df else columns df @ [''Profit''])"
    and "rows df' = map (\<lambda>r. AList.update ''Profit''
            (projr (sub_cells (cell_of r ''Revenue'', cell_of r ''Cost''))) r) (rows df)"
    and "\<And>r. r \<in> set (rows df) \<Longrightarrow> \<exists>w. sub_cells (cell_of r ''Revenue'', cell_of r ''Cost'') = Inr w"
proof -
  let ?ps = "map (\<lambda>r. (cell_of r ''Revenue'', cell_of r ''Cost'')) (rows df)"
  from assms obtain ws where ws: "traverse sub_cells ?ps = Inr ws"
    and df': "df' = set_col ''Profit'' ws df"
    by (auto simp: assign_profit_def get_col_def zip_two_maps split: if_splits sum.splits)
  from traverse_Inr_map [of sub_cells ?ps ws] ws
  have eq: "ws = map (\<lambda>x. projr (sub_cells x)) ?ps" and ok: "\<forall>x\<in>set ?ps. \<exists>w. sub_cells x = Inr w"
    by auto
  show "columns df' = (if ''Profit'' \<in> set (columns df) then columns df else columns df @ [''Profit''])"
    by (simp add: df' set_col_def)
  have "ws = map (\<lambda>r. projr (sub_cells (cell_of r ''Revenue'', cell_of r ''Cost''))) (rows df)"
    using eq by (simp add: o_def)
  then show "rows df' = map (\<lambda>r. AList.update ''Profit''
            (projr (sub_cells (cell_of r ''Revenue'', cell_of r ''Cost''))) r) (rows df)"
    by (simp add: df' set_col_def map_zip_same)
  show "\<exists>w. sub_cells (cell_of r ''Revenue'', cell_of r ''Cost'') = Inr w" if "r \<in> set (rows df)" for r
    using ok that by auto
qed

lemma derive_stages:
  assumes "derive td df0 = Inr d"
  obtains df1 df2 df3 df4 df5 df6 where
    "apply_col ''Date'' ''Date'' (date_cell td) df0 = Inr df1"
    "apply_col ''Cost'' ''Revenue'' (mul_scalar (float64 (7 / 10))) df1 = Inr df2"
    "assign_profit df2 = Inr df3"
    "apply_col ''City_Name'' ''Purchase_Address'' city_cell df3 = Inr df4"
    "apply_col ''Region'' ''City_Name'' region_cell df4 = Inr df5"
    "apply_col ''Category'' ''Product'' category_cell df5 = Inr df6"
    "d = drop_duplicates df6"
  using assms unfolding derive_def by (auto split: sum.splits)

lemma keep_first_distinct: "distinct (keep_first seen xs) \<and> set (keep_first seen xs) = set xs - set seen"
  by (induction seen xs rule: keep_first.induct) auto

lemma split_on_no_sep: "sep \<notin> set s \<Longrightarrow> split_on sep s = [s]"
  by (induction s) auto

lemma city_cell_no_comma: "CHR '','' \<notin> set s \<Longrightarrow> city_cell (CStr s) = Inl IndexError"
  by (simp add: city_cell_def city_name_def split_on_no_sep)

lemma twin_standardize: "rows df = [r, r] \<Longrightarrow> \<exists>r'. rows (standardize df) = [r', r']"
  by (simp add: standardize_def rename_columns_def drop_column_def Let_def)

lemma twin_apply_col: "rows df = [r, r] \<Longrightarrow> apply_col dst src f df = Inr df' \<Longrightarrow> \<exists>r'. rows df' = [r', r']"
  using apply_col_Inr(3) [of dst src f df df'] by simp

lemma twin_assign_profit: "rows df = [r, r] \<Longrightarrow> assign_profit df = Inr df' \<Longrightarrow> \<exists>r'. rows df' = [r', r']"
  using assign_profit_Inr(2) [of df df'] by simp

lemma twin_derive:
  assumes "rows df0 = [r, r]" and "derive td df0 = Inr d"
  shows "length (rows d) = 1"
proof -
  from assms(2) obtain df1 df2 df3 df4 df5 df6 where
    s: "apply_col ''Date'' ''Date'' (date_cell td) df0 = Inr df1"
    "apply_col ''Cost'' ''Revenue'' (mul_scalar (float64 (7 / 10))) df1 = Inr df2"
    "assign_profit df2 = Inr df3"
    "apply_col ''City_Name'' ''Purchase_Address'' city_cell df3 = Inr df4"
    "apply_col ''Region'' ''City_Name'' region_cell df4 = Inr df5"
    "apply_col ''Category'' ''Product'' category_cell df5 = Inr df6"
    and d: "d = drop_duplicates df6"
    by (rule derive_stages)
  from twin_apply_col [OF assms(1) s(1)] obtain r1 where "rows df1 = [r1, r1]" by auto
  from twin_apply_col [OF this s(2)] obtain r2 where "rows df2 = [r2, r2]" by auto
  from twin_assign_profit [OF this s(3)] obtain r3 where "rows df3 = [r3, r3]" by auto
  from twin_apply_col [OF this s(4)] obtain r4 where "rows df4 = [r4, r4]" by auto
  from twin_apply_col [OF this s(5)] obtain r5 where "rows df5 = [r5, r5]" by auto
  from twin_apply_col [OF this s(6)] obtain r6 where "rows df6 = [r6, r6]" by auto
  then show ?thesis by (simp add: d drop_duplicates_def)
qed

lemma load_data_Some:
  "load_data td file = Inr (msgs, Some d) \<Longrightarrow>
     \<exists>df. file = Table df \<and> derive td (standardize df) = Inr d \<and> msgs = []"
  by (cases "file") (auto simp: load_data_def read_csv_def split: sum.splits if_splits)

lemma derive_distinct: "derive td df0 = Inr d \<Longrightarrow> distinct (rows d)"
  by (erule derive_stages) (simp add: drop_duplicates_def keep_first_distinct)

text \<open>
  C7. Whenever the loader returns a frame, no two of its rows are the same record (a row is
  its values, column by column); and when the file has exactly two rows that agree in every
  column, the frame has exactly one row.
\<close>

theorem cleaned_rows_distinct:
  "load_data to_datetime file = Inr (msgs, Some d) \<longrightarrow>
     distinct (rows d) \<and> (\<forall>df r. file = Table df \<and> rows df = [r, r] \<longrightarrow> length (rows d) = 1)"
proof
  assume "load_data to_datetime file = Inr (msgs, Some d)"
  then obtain df where f: "file = Table df" and d: "derive to_datetime (standardize df) = Inr d"
    using load_data_Some by blast
  have "length (rows d) = 1" if "file = Table df'" and "rows df' = [r, r]" for df' r
  proof -
    from that f have "rows df = [r, r]" by simp
    then obtain r' where "rows (standardize df) = [r', r']" using twin_standardize by blast
    then show ?thesis using d by (rule twin_derive)
  qed
  with derive_distinct [OF d] show "distinct (rows d) \<and> (\<forall>df r. file = Table df \<and> rows df = [r, r] \<longrightarrow> length (rows d) = 1)"
    by blast
qed

theorem cleaned_rows_distinct_witness:
  "load_data Some (Table twin_sample) = Inr ([], Some twin_cleaned)
   \<and> distinct (rows twin_cleaned) \<and> length (rows twin_cleaned) = 1"
proof -
  have h: "load_data Some (Table twin_sample) = Inr ([], Some twin_cleaned)"
    by code_simp
  have "\<exists>r. rows twin_sample = [r, r]"
    by (simp add: twin_sample_def)
  with cleaned_rows_distinct [of Some "Table twin_sample" "[]" twin_cleaned] h
  show ?thesis by blast
qed

lemma address_kept:
  assumes "cell_of r ''Purchase_Address'' = CStr s" and "r \<in> set (rows df0)"
    and "apply_col ''Date'' ''Date'' f1 df0 = Inr df1"
    and "apply_col ''Cost'' ''Revenue'' f2 df1 = Inr df2"
    and "assign_profit df2 = Inr df3"
  shows "\<exists>r3 \<in> set (rows df3). cell_of r3 ''Purchase_Address'' = CStr s"
proof -
  let ?g1 = "\<lambda>r. AList.update ''Date'' (projr (f1 (cell_of r ''Date''))) r"
  let ?g2 = "\<lambda>r. AList.update ''Cost'' (projr (f2 (cell_of r ''Revenue''))) r"
  let ?g3 = "\<lambda>r. AList.update ''Profit''
            (projr (sub_cells (cell_of r ''Revenue'', cell_of r ''Cost''))) r"
  have "rows df3 = map ?g3 (map ?g2 (map ?g1 (rows df0)))"
    using apply_col_Inr(3) [OF assms(3)] apply_col_Inr(3) [OF assms(4)]
      assign_profit_Inr(2) [OF assms(5)] by simp
  then have "?g3 (?g2 (?g1 r)) \<in> set (rows df3)"
    using assms(2) by simp
  moreover have "cell_of (?g3 (?g2 (?g1 r))) ''Purchase_Address'' = CStr s"
    using assms(1) by (simp add: cell_of_update)
  ultimately show ?thesis by blast
qed

lemma derive_no_comma:
  assumes "r \<in> set (rows df0)" and "cell_of r ''Purchase_Address'' = CStr s"
    and "CHR '','' \<notin> set s"
  shows "\<exists>e. derive td df0 = Inl e"
proof (cases "derive td df0")
  case (Inl e)
  then show ?thesis by blast
next
  case (Inr d)
  then obtain df1 df2 df3 df4 df5 df6 where
    s: "apply_col ''Date'' ''Date'' (date_cell td) df0 = Inr df1"
    "apply_col ''Cost'' ''Revenue'' (mul_scalar (float64 (7 / 10))) df1 = Inr df2"
    "assign_profit df2 = Inr df3"
    "apply_col ''City_Name'' ''Purchase_Address'' city_cell df3 = Inr df4"
    by (rule derive_stages)
  from address_kept [OF assms(2) assms(1) s(1) s(2) s(3)]
  obtain r3 where r3: "r3 \<in> set (rows df3)" "cell_of r3 ''Purchase_Address'' = CStr s"
    by blast
  from apply_col_Inr(4) [OF s(4) r3(1)] r3(2) city_cell_no_comma [OF assms(3)]
  show ?thesis by simp
qed

text \<open>
  C8. A row whose Purchase_Address has no comma makes the loading fail: the second token of
  the address does not exist (IndexError), so the loader ends with an exception; the row is
  not skipped and no frame is returned.
\<close>

theorem no_comma_address_fatal:
  assumes "r \<in> set (rows (standardize df))"
    and "cell_of r ''Purchase_Address'' = CStr s"
    and "CHR '','' \<notin> set s"
  shows "city_name s = None \<and> city_cell (CStr s) = Inl IndexError
         \<and> (\<exists>e. load_data to_datetime (Table df) = Inl e)"
proof -
  from derive_no_comma [OF assms] obtain e where "derive to_datetime (standardize df) = Inl e"
    by blast
  then have "load_data to_datetime (Table df) = Inl e"
    by (simp add: load_data_def read_csv_def)
  moreover have "city_name s = None"
    using assms(3) by (simp add: city_name_def split_on_no_sep)
  ultimately show ?thesis
    using city_cell_no_comma [OF assms(3)] by blast
qed

theorem no_comma_address_fatal_witness:
  "cell_of (hd (rows (standardize bad_address_sample))) ''Purchase_Address''
     = CStr ''44 Pine St Austin TX 73301''
   \<and> load_data Some (Table bad_address_sample) = Inl IndexError"
proof -
  let ?r = "hd (rows (standardize bad_address_sample))"
  have h: "?r \<in> set (rows (standardize bad_address_sample))"
    "cell_of ?r ''Purchase_Address'' = CStr ''44 Pine St Austin TX 73301''"
    "CHR '','' \<notin> set ''44 Pine St Austin TX 73301''"
    by code_simp+
  have "load_data Some (Table bad_address_sample) = Inl IndexError"
    by code_simp
  with no_comma_address_fatal [OF h, of Some] h(2) show ?thesis
    by simp
qed

section \<open>Filters, totals and the top five\<close>

lemma apply_col_columns:
  "apply_col dst src f df = Inr df' \<Longrightarrow> set (columns df') = insert dst (set (columns df))"
  using apply_col_Inr(2) [of dst src f df df'] by auto

lemma assign_profit_columns:
  "assign_profit df = Inr df' \<Longrightarrow> set (columns df') = insert ''Profit'' (set (columns df))"
  using assign_profit_Inr(1) [of df df'] by auto


lemma filter_flags:
  "map fst (filter snd (zip rs (map (\<lambda>(a, b). a \<and> b) (zip (map p rs) (map q rs)))))
     = filter (\<lambda>r. p r \<and> q r) rs"
  by (induction rs) auto

lemma filter_selection_Inr:
  assumes "''Region'' \<in> set (columns df)" and "''Category'' \<in> set (columns df)"
  shows "filter_selection df sr sc =
     Inr (df\<lparr>rows := filter (\<lambda>r. cell_of r ''Region'' \<in> set sr \<and> cell_of r ''Category'' \<in> set sc)
                      (rows df)\<rparr>)"
  using assms
  by (simp add: filter_selection_def get_col_def boolean_index_def isin_def o_def
      filter_flags [of "rows df" "\<lambda>r. cell_of r ''Region'' \<in> set sr"
                       "\<lambda>r. cell_of r ''Category'' \<in> set sc"])

lemma derive_columns:
  assumes "derive td df0 = Inr d"
  shows "{''Revenue'', ''Profit'', ''Region'', ''Category''} \<subseteq> set (columns d)"
    and "set (columns df0) \<subseteq> set (columns d)"
proof -
  from assms(1) obtain df1 df2 df3 df4 df5 df6 where
    s: "apply_col ''Date'' ''Date'' (date_cell td) df0 = Inr df1"
    "apply_col ''Cost'' ''Revenue'' (mul_scalar (float64 (7 / 10))) df1 = Inr df2"
    "assign_profit df2 = Inr df3"
    "apply_col ''City_Name'' ''Purchase_Address'' city_cell df3 = Inr df4"
    "apply_col ''Region'' ''City_Name'' region_cell df4 = Inr df5"
    "apply_col ''Category'' ''Product'' category_cell df5 = Inr df6"
    and d: "d = drop_duplicates df6"
    by (rule derive_stages)
  have "set (columns df6) = insert ''Category'' (insert ''Region'' (insert ''City_Name''
      (insert ''Profit'' (insert ''Cost'' (insert ''Date'' (set (columns df0)))))))"
    using apply_col_columns [OF s(1)] apply_col_columns [OF s(2)] assign_profit_columns [OF s(3)]
    apply_col_columns [OF s(4)] apply_col_columns [OF s(5)] apply_col_columns [OF s(6)]
    by simp
  then have c: "set (columns d) = insert ''Category'' (insert ''Region'' (insert ''City_Name''
      (insert ''Profit'' (insert ''Cost'' (insert ''Date'' (set (columns df0)))))))"
    by (simp add: d drop_duplicates_def)
  have "''Revenue'' \<in> set (columns df1)" using apply_col_Inr(1) [OF s(2)] .
  then have "''Revenue'' \<in> set (columns df0)"
    using apply_col_columns [OF s(1)] by simp
  then show "{''Revenue'', ''Profit'', ''Region'', ''Category''} \<subseteq> set (columns d)"
    by (simp add: c)
  show "set (columns df0) \<subseteq> set (columns d)"
    unfolding c by (intro subset_insertI2 subset_refl)
qed




text \<open>The sample files, loaded.\<close>

lemma twin_sample_loads: "load_data Some (Table twin_sample) = Inr ([], Some twin_cleaned)"
  by code_simp

lemma six_sample_loads: "load_data Some (Table six_sample) = Inr ([], Some six_cleaned)"
  by code_simp

text \<open>
  The factor 0.30 is not exact in float64: a Revenue of 90 has the Cost 62.99999999999999
  and the Profit 27.000000000000007, not 27.
\<close>

lemma profit_of_90:
  "mul_scalar (float64 (7 / 10)) (CFloat 90) = Inr (CFloat (8866461766385663 / 140737488355328))
   \<and> sub_cells (CFloat 90, CFloat (8866461766385663 / 140737488355328))
       = Inr (CFloat (3799912185593857 / 140737488355328))
   \<and> (3799912185593857 / 140737488355328 :: rat) \<noteq> 27"
  by code_simp

text \<open>
  C3. For a loaded frame and any two selections, the filtered frame holds exactly the rows
  whose Region is among the selected regions and whose Category is among the selected
  categories, in their order. When it has no row (as with no region selected), \<open>main\<close>
  shows the two filters and the warning, no metric and no chart, and ends without an
  exception.
\<close>

theorem filter_and_no_data:
  assumes "load_data to_datetime file = Inr (msgs, Some df)"
  shows "\<exists>df_filtered.
      filter_selection df selected_region selected_category = Inr df_filtered
    \<and> rows df_filtered =
        filter (\<lambda>r. cell_of r ''Region'' \<in> set selected_region
                   \<and> cell_of r ''Category'' \<in> set selected_category) (rows df)
    \<and> (rows df_filtered = [] \<longrightarrow>
         main series_sum to_datetime file selected_region selected_category =
           \<lparr>shown = [PageConfig, Title ''Sales Data Analysis Dashboard'',
                     SidebarHeader ''Filters'',
                     Multiselect ''Region'' (unique (map (\<lambda>r. cell_of r ''Region'') (rows df))),
                     Multiselect ''Category'' (unique (map (\<lambda>r. cell_of r ''Category'') (rows df))),
                     WarningMsg ''No data available for the selected filters.''],
            raised = None\<rparr>)
    \<and> (selected_region = [] \<longrightarrow> rows df_filtered = [])"
proof -
  from assms obtain df0 where d: "derive to_datetime (standardize df0) = Inr df" and "msgs = []"
    using load_data_Some by blast
  from derive_columns(1) [OF d]
  have c: "''Region'' \<in> set (columns df)" "''Category'' \<in> set (columns df)" by auto
  let ?f = "df\<lparr>rows := filter (\<lambda>r. cell_of r ''Region'' \<in> set selected_region
                   \<and> cell_of r ''Category'' \<in> set selected_category) (rows df)\<rparr>"
  have f: "filter_selection df selected_region selected_category = Inr ?f"
    using c by (rule filter_selection_Inr)
  have "main series_sum to_datetime file selected_region selected_category =
           \<lparr>shown = [PageConfig, Title ''Sales Data Analysis Dashboard'',
                     SidebarHeader ''Filters'',
                     Multiselect ''Region'' (unique (map (\<lambda>r. cell_of r ''Region'') (rows df))),
                     Multiselect ''Category'' (unique (map (\<lambda>r. cell_of r ''Category'') (rows df))),
                     WarningMsg ''No data available for the selected filters.''],
            raised = None\<rparr>" if "rows ?f = []"
    using that c by (simp add: main_def assms \<open>msgs = []\<close> present_def get_col_def f empty_df_def)
  with f show ?thesis by simp
qed


theorem filter_and_no_data_witness:
  "main sum_in_order Some (Table twin_sample) [] [CStr ''Accessories''] =
     \<lparr>shown = [PageConfig, Title ''Sales Data Analysis Dashboard'', SidebarHeader ''Filters'',
               Multiselect ''Region'' [CStr ''East''],
               Multiselect ''Category'' [CStr ''Accessories''],
               WarningMsg ''No data available for the selected filters.''],
      raised = None\<rparr>"
proof -
  have u: "unique (map (\<lambda>r. cell_of r ''Region'') (rows twin_cleaned)) = [CStr ''East'']"
    "unique (map (\<lambda>r. cell_of r ''Category'') (rows twin_cleaned)) = [CStr ''Accessories'']"
    by code_simp+
  from filter_and_no_data [OF twin_sample_loads, of "[]" "[CStr ''Accessories'']" sum_in_order]
  show ?thesis
    by (auto simp: u)
qed




lemma sort_desc_sorted: "sorted_wrt (\<lambda>a b. snd b \<le> snd a) (sort_key (\<lambda>p. - snd p) (s :: (string \<times> rat) list))"
proof -
  have "sorted (map (\<lambda>p. - snd p) (sort_key (\<lambda>p. - snd p) s))"
    by (rule sorted_sort_key)
  then show ?thesis by (simp add: sorted_map)
qed

lemma sort_desc_distinct:
  "distinct (map snd (s :: (string \<times> rat) list)) \<Longrightarrow> distinct (map snd (sort_key (\<lambda>p. - snd p) s))"
  by (simp add: distinct_map)

lemma strictly_descending:
  "sorted_wrt (\<lambda>a b. snd b \<le> snd a) (s :: (string \<times> rat) list) \<Longrightarrow> distinct (map snd s)
     \<Longrightarrow> sorted_wrt (\<lambda>a b. snd b < snd a) s"
proof (induction s)
  case Nil
  then show ?case by simp
next
  case (Cons x s)
  have "snd y < snd x" if "y \<in> set s" for y
  proof -
    from Cons.prems(1) that have "snd y \<le> snd x" by simp
    moreover have "snd y \<noteq> snd x"
    proof
      assume "snd y = snd x"
      with that have "snd x \<in> snd ` set s" by (metis imageI)
      with Cons.prems(2) show False by simp
    qed
    ultimately show ?thesis by simp
  qed
  with Cons show ?case by simp
qed

lemma sorted_left_out:
  assumes "sorted_wrt (\<lambda>a b. snd b \<le> snd a) (s :: (string \<times> rat) list)"
    and "p \<in> set s" and "p \<notin> set (take n s)" and "q \<in> set (take n s)"
  shows "snd p \<le> snd q"
proof -
  have "sorted_wrt (\<lambda>a b. snd b \<le> snd a) (take n s @ drop n s)"
    using assms(1) by (simp only: append_take_drop_id)
  then have "\<forall>a \<in> set (take n s). \<forall>b \<in> set (drop n s). snd b \<le> snd a"
    using sorted_wrt_append [of "\<lambda>a b. snd b \<le> snd a" "take n s" "drop n s"] by blast
  moreover have "p \<in> set (drop n s)"
    using assms(2) assms(3) by (metis Un_iff append_take_drop_id set_append)
  ultimately show ?thesis using assms(4) by blast
qed

text \<open>
  C6, as amended. The Top-5 Products output has at most five entries (five when there are
  five products or more, else all of them), each a product with its summed revenue, in
  descending order: no entry is larger than the one before it, and no product left out is
  larger than one that is shown. Products with equal sums stand next to each other; the
  order is strict when no two products have the same summed revenue.
\<close>

theorem top_5_descending:
  "length (top_5_products df_filtered) \<le> 5
   \<and> length (top_5_products df_filtered)
       = min 5 (length (groupby_sum ''Product'' ''Revenue'' df_filtered))
   \<and> sorted_wrt (\<lambda>a b. snd b \<le> snd a) (top_5_products df_filtered)
   \<and> set (top_5_products df_filtered) \<subseteq> set (groupby_sum ''Product'' ''Revenue'' df_filtered)
   \<and> (\<forall>p q. p \<in> set (groupby_sum ''Product'' ''Revenue'' df_filtered)
          \<and> p \<notin> set (top_5_products df_filtered) \<and> q \<in> set (top_5_products df_filtered)
          \<longrightarrow> snd p \<le> snd q)
   \<and> (distinct (map snd (groupby_sum ''Product'' ''Revenue'' df_filtered))
        \<longrightarrow> sorted_wrt (\<lambda>a b. snd b < snd a) (top_5_products df_filtered))"
proof -
  let ?g = "groupby_sum ''Product'' ''Revenue'' df_filtered"
  let ?s = "sort_key (\<lambda>p. - snd p) ?g"
  have t: "top_5_products df_filtered = take 5 ?s"
    by (simp add: top_5_products_def nlargest_def)
  have l: "length (take 5 ?s) = min 5 (length ?g)"
    by (simp add: min.commute)
  have a: "sorted_wrt (\<lambda>a b. snd b \<le> snd a) (take 5 ?s)"
    using sort_desc_sorted [of ?g] by (rule sorted_wrt_take)
  have b: "set (take 5 ?s) \<subseteq> set ?g"
    using set_take_subset [of 5 ?s] by simp
  have o: "snd p \<le> snd q" if "p \<in> set ?g" "p \<notin> set (take 5 ?s)" "q \<in> set (take 5 ?s)" for p q
  proof -
    from that(1) have "p \<in> set ?s" by simp
    with sort_desc_sorted [of ?g] show ?thesis
      using that(2) that(3) by (rule sorted_left_out)
  qed
  have c: "sorted_wrt (\<lambda>a b. snd b < snd a) (take 5 ?s)" if "distinct (map snd ?g)"
  proof -
    have "distinct (map snd ?s)" using that by (rule sort_desc_distinct)
    then have "distinct (take 5 (map snd ?s))" by (rule distinct_take)
    then have "distinct (map snd (take 5 ?s))" by (simp add: take_map)
    with a show ?thesis by (rule strictly_descending)
  qed
  from l a b o c show ?thesis
    unfolding t by (intro conjI allI impI) auto
qed

theorem top_5_descending_witness:
  "length (groupby_sum ''Product'' ''Revenue'' six_cleaned) = 6
   \<and> distinct (map snd (groupby_sum ''Product'' ''Revenue'' six_cleaned))
   \<and> top_5_products six_cleaned =
       [(''Macbook Pro Laptop'', 1700), (''iPhone'', 1000), (''Google Phone'', 600),
        (''27in FHD Monitor'', 150), (''Bose SoundSport Headphones'', 100)]
   \<and> (''USB-C Charging Cable'', 15 / 2) \<in> set (groupby_sum ''Product'' ''Revenue'' six_cleaned)
   \<and> sorted_wrt (\<lambda>a b. snd b < snd a) (top_5_products six_cleaned)
   \<and> BarChart ''Top 5 Products''
         [(''Macbook Pro Laptop'', 1700), (''iPhone'', 1000), (''Google Phone'', 600),
          (''27in FHD Monitor'', 150), (''Bose SoundSport Headphones'', 100)]
       \<in> set (shown (main sum_in_order Some (Table six_sample) six_regions six_categories))"
proof -
  have h: "distinct (map snd (groupby_sum ''Product'' ''Revenue'' six_cleaned))"
    by code_simp
  have v: "length (groupby_sum ''Product'' ''Revenue'' six_cleaned) = 6"
    "top_5_products six_cleaned =
       [(''Macbook Pro Laptop'', 1700), (''iPhone'', 1000), (''Google Phone'', 600),
        (''27in FHD Monitor'', 150), (''Bose SoundSport Headphones'', 100)]"
    "(''USB-C Charging Cable'', 15 / 2) \<in> set (groupby_sum ''Product'' ''Revenue'' six_cleaned)"
    by code_simp+
  have m: "BarChart ''Top 5 Products'' (top_5_products six_cleaned)
       \<in> set (shown (present sum_in_order six_cleaned six_regions six_categories))"
    by code_simp
  have "BarChart ''Top 5 Products'' (top_5_products six_cleaned)
       \<in> set (shown (main sum_in_order Some (Table six_sample) six_regions six_categories))"
    using m by (simp add: main_def six_sample_loads Let_def)
  with top_5_descending [of six_cleaned] h v show ?thesis
    by simp
qed

text \<open>
  A strict order fails on two products of equal summed revenue: both are shown, with 600
  each.
\<close>

theorem top_5_tie_counterexample:
  "BarChart ''Top 5 Products'' [(''Google Phone'', 600), (''LG Dryer'', 600)]
     \<in> set (shown (main sum_in_order Some (Table tie_sample) [CStr ''Central'', CStr ''South'']
                      [CStr ''Other'', CStr ''Mobile'']))
   \<and> \<not> sorted_wrt (\<lambda>a b. snd b < snd a) [(''Google Phone'', 600 :: rat), (''LG Dryer'', 600)]"
  by code_simp

section \<open>Shape of the cleaned frame\<close>

lemma keys_update:
  "map fst (AList.update k v r) = (if k \<in> set (map fst r) then map fst r else map fst r @ [k])"
  by (induction r) auto

lemma well_formed_set_col:
  "well_formed df \<Longrightarrow> rows df' = map (\<lambda>r. AList.update c (h r) r) (rows df) \<Longrightarrow>
   columns df' = (if c \<in> set (columns df) then columns df else columns df @ [c]) \<Longrightarrow>
   well_formed df'"
  by (auto simp: well_formed_def list_all_iff keys_update)

lemma keys_rename: "map fst (map (\<lambda>(k, v). (f k, v)) r) = map f (map fst r)"
  by (induction r) auto

lemma keys_drop: "map fst (filter (\<lambda>(k, v). k \<noteq> c) r) = filter (\<lambda>k. k \<noteq> c) (map fst r)"
  by (induction r) auto

lemma well_formed_rename: "well_formed df \<Longrightarrow> well_formed (rename_columns f df)"
  by (simp add: well_formed_def list_all_iff rename_columns_def keys_rename del: map_map)

lemma well_formed_drop: "well_formed df \<Longrightarrow> well_formed (drop_column c df)"
  by (simp add: well_formed_def list_all_iff drop_column_def keys_drop)

lemma well_formed_standardize: "well_formed df \<Longrightarrow> well_formed (standardize df)"
  by (simp add: standardize_def Let_def well_formed_rename well_formed_drop)

lemma well_formed_derive:
  assumes "well_formed df0" and "derive td df0 = Inr d"
  shows "well_formed d"
proof -
  from assms(2) obtain df1 df2 df3 df4 df5 df6 where
    s: "apply_col ''Date'' ''Date'' (date_cell td) df0 = Inr df1"
    "apply_col ''Cost'' ''Revenue'' (mul_scalar (float64 (7 / 10))) df1 = Inr df2"
    "assign_profit df2 = Inr df3"
    "apply_col ''City_Name'' ''Purchase_Address'' city_cell df3 = Inr df4"
    "apply_col ''Region'' ''City_Name'' region_cell df4 = Inr df5"
    "apply_col ''Category'' ''Product'' category_cell df5 = Inr df6"
    and d: "d = drop_duplicates df6"
    by (rule derive_stages)
  have w1: "well_formed df1"
    using assms(1) apply_col_Inr(3) [OF s(1)] apply_col_Inr(2) [OF s(1)] by (rule well_formed_set_col)
  have w2: "well_formed df2"
    using w1 apply_col_Inr(3) [OF s(2)] apply_col_Inr(2) [OF s(2)] by (rule well_formed_set_col)
  have w3: "well_formed df3"
    using w2 assign_profit_Inr(2) [OF s(3)] assign_profit_Inr(1) [OF s(3)] by (rule well_formed_set_col)
  have w4: "well_formed df4"
    using w3 apply_col_Inr(3) [OF s(4)] apply_col_Inr(2) [OF s(4)] by (rule well_formed_set_col)
  have w5: "well_formed df5"
    using w4 apply_col_Inr(3) [OF s(5)] apply_col_Inr(2) [OF s(5)] by (rule well_formed_set_col)
  have w6: "well_formed df6"
    using w5 apply_col_Inr(3) [OF s(6)] apply_col_Inr(2) [OF s(6)] by (rule well_formed_set_col)
  have "set (rows d) \<subseteq> set (rows df6)"
    using keep_first_distinct [of "[]" "rows df6"] by (simp add: d drop_duplicates_def)
  with w6 show ?thesis
    by (auto simp: well_formed_def list_all_iff d drop_duplicates_def)
qed

lemma load_data_well_formed:
  "well_formed df \<Longrightarrow> load_data td (Table df) = Inr (msgs, Some d) \<Longrightarrow> well_formed d"
  using load_data_Some [of td "Table df" msgs d] well_formed_standardize [of df]
    well_formed_derive [of "standardize df" td d] by auto

text \<open>
  Every row of the cleaned frame has its City_Name from the second token of its address,
  its Region from \<open>get_region\<close> on that name and its Category from \<open>get_category\<close> on its
  product.
\<close>

lemma cleaned_row_labels:
  assumes "derive td df0 = Inr d" and "r \<in> set (rows d)"
  shows "\<exists>address city product.
      cell_of r ''Purchase_Address'' = CStr address \<and> city_name address = Some city
    \<and> cell_of r ''City_Name'' = CStr city \<and> cell_of r ''Region'' = CStr (get_region city)
    \<and> cell_of r ''Product'' = CStr product \<and> cell_of r ''Category'' = CStr (get_category product)"
proof -
  from assms(1) obtain df1 df2 df3 df4 df5 df6 where
    s: "apply_col ''Date'' ''Date'' (date_cell td) df0 = Inr df1"
    "apply_col ''Cost'' ''Revenue'' (mul_scalar (float64 (7 / 10))) df1 = Inr df2"
    "assign_profit df2 = Inr df3"
    "apply_col ''City_Name'' ''Purchase_Address'' city_cell df3 = Inr df4"
    "apply_col ''Region'' ''City_Name'' region_cell df4 = Inr df5"
    "apply_col ''Category'' ''Product'' category_cell df5 = Inr df6"
    and d: "d = drop_duplicates df6"
    by (rule derive_stages)
  let ?g4 = "\<lambda>r. AList.update ''City_Name'' (projr (city_cell (cell_of r ''Purchase_Address''))) r"
  let ?g5 = "\<lambda>r. AList.update ''Region'' (projr (region_cell (cell_of r ''City_Name''))) r"
  let ?g6 = "\<lambda>r. AList.update ''Category'' (projr (category_cell (cell_of r ''Product''))) r"
  have "r \<in> set (rows df6)"
    using assms(2) keep_first_distinct [of "[]" "rows df6"] by (simp add: d drop_duplicates_def)
  then obtain r3 where r3: "r3 \<in> set (rows df3)" and r: "r = ?g6 (?g5 (?g4 r3))"
    using apply_col_Inr(3) [OF s(4)] apply_col_Inr(3) [OF s(5)] apply_col_Inr(3) [OF s(6)]
    by auto
  from apply_col_Inr(4) [OF s(4) r3]
  obtain w where w: "city_cell (cell_of r3 ''Purchase_Address'') = Inr w" by blast
  then obtain address city where a: "cell_of r3 ''Purchase_Address'' = CStr address"
    "city_name address = Some city" "w = CStr city"
    by (auto simp: city_cell_def split: cell.splits option.splits)
  have "?g5 (?g4 r3) \<in> set (rows df5)"
    using r3 apply_col_Inr(3) [OF s(4)] apply_col_Inr(3) [OF s(5)] by simp
  from apply_col_Inr(4) [OF s(6) this]
  obtain c where c: "category_cell (cell_of r3 ''Product'') = Inr c"
    by (auto simp: cell_of_update)
  then obtain product where p: "cell_of r3 ''Product'' = CStr product" "c = CStr (get_category product)"
    by (auto simp: category_cell_def split: cell.splits)
  have "cell_of r ''Purchase_Address'' = CStr address \<and> city_name address = Some city
    \<and> cell_of r ''City_Name'' = CStr city \<and> cell_of r ''Region'' = CStr (get_region city)
    \<and> cell_of r ''Product'' = CStr product \<and> cell_of r ''Category'' = CStr (get_category product)"
    using a p w c by (simp add: r cell_of_update region_cell_def)
  then show ?thesis by blast
qed

end
